theory Spec2Isabelle
  imports Complex_Main
begin

section \<open>The example application: data model\<close>

text \<open>
  The application is a set of FastAPI route handlers over two SQLAlchemy tables,
  \<^verbatim>\<open>products\<close> and \<^verbatim>\<open>users\<close>, in an SQLite database. The embedding keeps the handlers'
  names and their order of checks. What the source leaves to its libraries is written out
  as follows.

  \<^item> The database session is an explicit state: a record of the two tables, each a list of
    rows in rowid order (the order in which an unordered \<^verbatim>\<open>SELECT\<close> scans the table).
    Every handler takes the state and returns its result together with the state after it.
  \<^item> An exception is the \<open>Inl\<close> of a sum type; a handler that raises leaves the state as the
    last commit left it.
  \<^item> Python's integers are \<open>int\<close>, unbounded. SQLite's are signed 64-bit integers: an
    integer of the request that is bound to a statement outside this range makes the
    driver raise \<^verbatim>\<open>OverflowError\<close> before the statement runs.
  \<^item> A Python \<^verbatim>\<open>float\<close> is a finite number, an infinity or NaN. It is only stored and read
    back, never computed with; a finite one is carried as a \<open>real\<close>. SQLite stores NaN as
    \<^verbatim>\<open>NULL\<close>, which a \<^verbatim>\<open>NOT NULL\<close> column refuses.
  \<^item> A string is the text of a \<^verbatim>\<open>str\<close> that the request validation has accepted.
  \<^item> A \<^verbatim>\<open>DateTime\<close> is a point on an integer time line. What a handler reads from outside
    the request and the database is its environment: the clock (\<^verbatim>\<open>datetime.utcnow\<close>) and
    the random numbers SQLite draws when it has to pick a rowid at random.
  \<^item> A column declared without \<^verbatim>\<open>nullable=False\<close> holds an \<open>option\<close>.
  \<^item> Resource limits (disk, memory, the largest size of one value) are not modelled.
  \<^item> A handler's result is the value its body returns; the framework's conversion of that
    value to the declared \<^verbatim>\<open>response_model\<close> is not modelled.
  \<^item> The fields of the two row classes are prefixed (\<open>p_\<close>, \<open>u_\<close>), those of the two request
    bodies too (\<open>pc_\<close>, \<open>uc_\<close>), since both classes declare \<^verbatim>\<open>id\<close> and \<^verbatim>\<open>created_at\<close>.
\<close>

type_synonym datetime = int

datatype pyfloat = Finite real | PlusInfinity | MinusInfinity | NaN

record Product =
  p_id :: int
  p_name :: string
  p_description :: "string option"
  p_price :: pyfloat
  p_in_stock :: "bool option"
  p_created_at :: "datetime option"

record User =
  u_id :: int
  u_username :: string
  u_email :: string
  u_full_name :: "string option"
  u_created_at :: "datetime option"

record ProductCreate =
  pc_name :: string
  pc_description :: "string option"
  pc_price :: pyfloat
  pc_in_stock :: bool

record UserCreate =
  uc_username :: string
  uc_email :: string
  uc_full_name :: "string option"

record database =
  products :: "Product list"
  users :: "User list"

record environment =
  utcnow :: datetime
  randomness :: "nat \<Rightarrow> int"

datatype error =
    HTTPException int string
  | ValueError string
  | RequestValidationError
  | OverflowError
  | IntegrityError
  | OperationalError
  | InvalidRequestError

text \<open>
  A field of a request body is either left out or given. \<^verbatim>\<open>ProductCreate\<close> declares
  \<^verbatim>\<open>description: Optional[str] = None\<close> and \<^verbatim>\<open>in_stock: bool = True\<close>;
  \<^verbatim>\<open>UserCreate\<close> declares \<^verbatim>\<open>full_name: Optional[str] = None\<close>. A field left out takes
  the declared default.
\<close>

datatype 'a field = Omitted | Given 'a

definition field_value :: "'a \<Rightarrow> 'a field \<Rightarrow> 'a" where
  "field_value dflt f = (case f of Omitted \<Rightarrow> dflt | Given v \<Rightarrow> v)"

definition ProductCreate_init ::
  "string \<Rightarrow> string option field \<Rightarrow> pyfloat \<Rightarrow> bool field \<Rightarrow> ProductCreate" where
  "ProductCreate_init name description price in_stock =
     \<lparr>pc_name = name,
      pc_description = field_value None description,
      pc_price = price,
      pc_in_stock = field_value True in_stock\<rparr>"

definition UserCreate_init ::
  "string \<Rightarrow> string \<Rightarrow> string option field \<Rightarrow> UserCreate" where
  "UserCreate_init username email full_name =
     \<lparr>uc_username = username,
      uc_email = email,
      uc_full_name = field_value None full_name\<rparr>"

section \<open>The database layer\<close>

text \<open>The integers that SQLite stores and that the driver binds: the signed 64-bit ones.\<close>

definition int64 :: "int \<Rightarrow> bool" where
  "int64 k \<longleftrightarrow> - 9223372036854775808 \<le> k \<and> k \<le> 9223372036854775807"

text \<open>
  An \<^verbatim>\<open>Integer\<close> primary key of an SQLite table is its rowid. A row inserted without one
  gets 1 in an empty table, and the largest rowid of the table plus one as long as that
  largest rowid is below the largest integer. Otherwise SQLite draws up to 100 random
  numbers, each reduced to the range from 1 to \<open>2\<^sup>6\<^sup>2\<close>, takes the first one that is not in
  use, and fails (the database is "full") when all are in use.
\<close>

definition new_rowid :: "(nat \<Rightarrow> int) \<Rightarrow> int list \<Rightarrow> error + int" where
  "new_rowid rnd ids =
     (if ids = [] then Inr 1
      else if Max (set ids) < 9223372036854775807 then Inr (Max (set ids) + 1)
      else (case find (\<lambda>v. v \<notin> set ids)
                   (map (\<lambda>i. rnd i mod 4611686018427387904 + 1) [0..<100]) of
              None \<Rightarrow> Inl OperationalError
            | Some v \<Rightarrow> Inr v))"

text \<open>
  \<^verbatim>\<open>.offset(k)\<close> and \<^verbatim>\<open>.limit(k)\<close> on the rows of a query, both bound to the statement.
  SQLite reads a negative offset as 0 and a negative limit as no limit.
\<close>

definition offset_rows :: "int \<Rightarrow> 'a list \<Rightarrow> 'a list" where
  "offset_rows k rows = drop (nat k) rows"

definition limit_rows :: "int \<Rightarrow> 'a list \<Rightarrow> 'a list" where
  "limit_rows k rows = (if k < 0 then rows else take (nat k) rows)"

definition offset_limit_all :: "int \<Rightarrow> int \<Rightarrow> 'a list \<Rightarrow> error + 'a list" where
  "offset_limit_all skip limit rows =
     (if int64 skip \<and> int64 limit
      then Inr (limit_rows limit (offset_rows skip rows))
      else Inl OverflowError)"

text \<open>
  \<^verbatim>\<open>.filter(Model.id == k).first()\<close>: the first row with the identifier, if there is one;
  the identifier is bound to the statement.
\<close>

definition first_by_id :: "('a \<Rightarrow> int) \<Rightarrow> int \<Rightarrow> 'a list \<Rightarrow> error + 'a option" where
  "first_by_id key k rows =
     (if int64 k then Inr (find (\<lambda>r. key r = k) rows) else Inl OverflowError)"

text \<open>
  \<^verbatim>\<open>db.add(Product(**product.dict())); db.commit()\<close>: the row is inserted with the
  fields of the request body, a new rowid, and \<^verbatim>\<open>created_at\<close> from the column default, at
  its place in rowid order. The insert allocates the rowid first and checks the constraints
  after: \<^verbatim>\<open>price\<close> is \<^verbatim>\<open>NOT NULL\<close>, so a NaN is refused with an \<^verbatim>\<open>IntegrityError\<close>
  (\<^verbatim>\<open>name\<close> is \<^verbatim>\<open>NOT NULL\<close> too; the body's type gives it).
\<close>

definition add_commit_product ::
  "ProductCreate \<Rightarrow> environment \<Rightarrow> database \<Rightarrow> error + int \<times> database" where
  "add_commit_product v env db =
     (case new_rowid (randomness env) (map p_id (products db)) of
        Inl e \<Rightarrow> Inl e
      | Inr rid \<Rightarrow>
          if pc_price v = NaN then Inl IntegrityError
          else Inr (rid,
                    db\<lparr>products :=
                         insort_key p_id
                           \<lparr>p_id = rid, p_name = pc_name v, p_description = pc_description v,
                            p_price = pc_price v, p_in_stock = Some (pc_in_stock v),
                            p_created_at = Some (utcnow env)\<rparr>
                           (products db)\<rparr>))"

text \<open>
  The same for a user. Here the columns \<^verbatim>\<open>username\<close> and \<^verbatim>\<open>email\<close> are
  \<^verbatim>\<open>unique=True\<close>: the insert is refused with an \<^verbatim>\<open>IntegrityError\<close> when a stored row
  has either value.
\<close>

definition add_commit_user ::
  "UserCreate \<Rightarrow> environment \<Rightarrow> database \<Rightarrow> error + int \<times> database" where
  "add_commit_user v env db =
     (case new_rowid (randomness env) (map u_id (users db)) of
        Inl e \<Rightarrow> Inl e
      | Inr rid \<Rightarrow>
          if uc_username v \<in> set (map u_username (users db)) \<or>
             uc_email v \<in> set (map u_email (users db))
          then Inl IntegrityError
          else Inr (rid,
                    db\<lparr>users :=
                         insort_key u_id
                           \<lparr>u_id = rid, u_username = uc_username v, u_email = uc_email v,
                            u_full_name = uc_full_name v,
                            u_created_at = Some (utcnow env)\<rparr>
                           (users db)\<rparr>))"

text \<open>
  \<^verbatim>\<open>db.refresh(obj)\<close> reads the row back by its primary key, and raises
  \<^verbatim>\<open>InvalidRequestError\<close> when the row is not there. The key is the one the database
  gave the row.
\<close>

definition refresh_product :: "int \<Rightarrow> database \<Rightarrow> error + Product" where
  "refresh_product rid db =
     (case find (\<lambda>p. p_id p = rid) (products db) of
        None \<Rightarrow> Inl InvalidRequestError
      | Some p \<Rightarrow> Inr p)"

definition refresh_user :: "int \<Rightarrow> database \<Rightarrow> error + User" where
  "refresh_user rid db =
     (case find (\<lambda>u. u_id u = rid) (users db) of
        None \<Rightarrow> Inl InvalidRequestError
      | Some u \<Rightarrow> Inr u)"

text \<open>
  The \<^verbatim>\<open>UPDATE\<close> that \<^verbatim>\<open>db.commit()\<close> flushes after the \<^verbatim>\<open>setattr\<close> loop of
  \<^verbatim>\<open>update_product\<close>, and the \<^verbatim>\<open>DELETE\<close> after \<^verbatim>\<open>db.delete\<close>: both address the
  row by its primary key. The update is refused like the insert when the new price is NaN.
\<close>

definition update_commit_product :: "int \<Rightarrow> ProductCreate \<Rightarrow> database \<Rightarrow> error + database" where
  "update_commit_product rid v db =
     (if pc_price v = NaN then Inl IntegrityError
      else Inr (db\<lparr>products :=
                    map (\<lambda>p. if p_id p = rid
                             then p\<lparr>p_name := pc_name v, p_description := pc_description v,
                                    p_price := pc_price v, p_in_stock := Some (pc_in_stock v)\<rparr>
                             else p)
                        (products db)\<rparr>))"

definition delete_commit_product :: "int \<Rightarrow> database \<Rightarrow> database" where
  "delete_commit_product rid db =
     db\<lparr>products := filter (\<lambda>p. p_id p \<noteq> rid) (products db)\<rparr>"

section \<open>The route handlers\<close>

definition root :: "(string \<times> string) list" where
  "root = [(''message'', ''Welcome to the Example API''),
           (''dashboard'', ''Visit /__radar to see the debugging dashboard'')]"

text \<open>
  \<^verbatim>\<open>list_products\<close>. The filter of the \<^verbatim>\<open>in_stock_only\<close> branch is
  \<^verbatim>\<open>Product.in_stock is True\<close>: Python's identity test between the column attribute of
  the class and the object \<^verbatim>\<open>True\<close>, evaluated before the query is built. Its value is
  \<^verbatim>\<open>False\<close> whatever the rows are, and \<^verbatim>\<open>filter(False)\<close> is the SQL condition
  \<^verbatim>\<open>false\<close>.
\<close>

definition list_products ::
  "int \<Rightarrow> int \<Rightarrow> bool \<Rightarrow> database \<Rightarrow> (error + Product list) \<times> database" where
  "list_products skip limit in_stock_only db =
     (let query = products db;
          query = (if in_stock_only then filter (\<lambda>p. False) query else query)
      in (offset_limit_all skip limit query, db))"

definition get_product :: "int \<Rightarrow> database \<Rightarrow> (error + Product) \<times> database" where
  "get_product product_id db =
     (case first_by_id p_id product_id (products db) of
        Inl e \<Rightarrow> (Inl e, db)
      | Inr None \<Rightarrow> (Inl (HTTPException 404 ''Product not found''), db)
      | Inr (Some product) \<Rightarrow> (Inr product, db))"

definition create_product ::
  "ProductCreate \<Rightarrow> environment \<Rightarrow> database \<Rightarrow> (error + Product) \<times> database" where
  "create_product product env db =
     (case add_commit_product product env db of
        Inl e \<Rightarrow> (Inl e, db)
      | Inr (rid, db') \<Rightarrow> (refresh_product rid db', db'))"

definition update_product ::
  "int \<Rightarrow> ProductCreate \<Rightarrow> database \<Rightarrow> (error + Product) \<times> database" where
  "update_product product_id product db =
     (case first_by_id p_id product_id (products db) of
        Inl e \<Rightarrow> (Inl e, db)
      | Inr None \<Rightarrow> (Inl (HTTPException 404 ''Product not found''), db)
      | Inr (Some db_product) \<Rightarrow>
          (case update_commit_product (p_id db_product) product db of
             Inl e \<Rightarrow> (Inl e, db)
           | Inr db' \<Rightarrow> (refresh_product (p_id db_product) db', db')))"

definition delete_product ::
  "int \<Rightarrow> database \<Rightarrow> (error + (string \<times> string) list) \<times> database" where
  "delete_product product_id db =
     (case first_by_id p_id product_id (products db) of
        Inl e \<Rightarrow> (Inl e, db)
      | Inr None \<Rightarrow> (Inl (HTTPException 404 ''Product not found''), db)
      | Inr (Some db_product) \<Rightarrow>
          (Inr [(''message'', ''Product deleted successfully'')],
           delete_commit_product (p_id db_product) db))"

definition list_users :: "int \<Rightarrow> int \<Rightarrow> database \<Rightarrow> (error + User list) \<times> database" where
  "list_users skip limit db = (offset_limit_all skip limit (users db), db)"

definition get_user :: "int \<Rightarrow> database \<Rightarrow> (error + User) \<times> database" where
  "get_user user_id db =
     (case first_by_id u_id user_id (users db) of
        Inl e \<Rightarrow> (Inl e, db)
      | Inr None \<Rightarrow> (Inl (HTTPException 404 ''User not found''), db)
      | Inr (Some user) \<Rightarrow> (Inr user, db))"

definition create_user ::
  "UserCreate \<Rightarrow> environment \<Rightarrow> database \<Rightarrow> (error + User) \<times> database" where
  "create_user user env db =
     (case find (\<lambda>u. u_username u = uc_username user \<or> u_email u = uc_email user) (users db) of
        Some existing_user \<Rightarrow>
          (Inl (HTTPException 400 ''User with this username or email already exists''), db)
      | None \<Rightarrow>
          (case add_commit_user user env db of
             Inl e \<Rightarrow> (Inl e, db)
           | Inr (rid, db') \<Rightarrow> (refresh_user rid db', db')))"

text \<open>
  \<^verbatim>\<open>slow_query_example\<close> reads all products, sleeps, and looks the user 1 up once for
  each of the first three products; the lookups are thrown away.
\<close>

datatype json = JStr string | JInt int

definition slow_query_example :: "database \<Rightarrow> (error + (string \<times> json) list) \<times> database" where
  "slow_query_example db =
     (let products = products db;
          lookups = map (\<lambda>product. find (\<lambda>u. u_id u = 1) (users db)) (take 3 products)
      in (Inr [(''message'', JStr ''This endpoint performs slow queries''),
               (''product_count'', JInt (int (length products)))], db))"

definition trigger_error :: "error + unit" where
  "trigger_error = Inl (ValueError ''This is an example error for demonstration purposes'')"

definition health_check :: "(string \<times> string) list" where
  "health_check = [(''status'', ''healthy'')]"

section \<open>The routing table and the application as a whole\<close>

text \<open>
  One entry for each route decorator of the file, in the order of the file: the method,
  the path and the name of the handler.
\<close>

datatype http_method = GET | POST | PUT | PATCH | DELETE

definition routes :: "(http_method \<times> string \<times> string) list" where
  "routes =
     [(GET, ''/'', ''root''),
      (GET, ''/products'', ''list_products''),
      (GET, ''/products/{product_id}'', ''get_product''),
      (POST, ''/products'', ''create_product''),
      (PUT, ''/products/{product_id}'', ''update_product''),
      (DELETE, ''/products/{product_id}'', ''delete_product''),
      (GET, ''/users'', ''list_users''),
      (GET, ''/users/{user_id}'', ''get_user''),
      (POST, ''/users'', ''create_user''),
      (GET, ''/slow-query'', ''slow_query_example''),
      (GET, ''/error'', ''trigger_error''),
      (GET, ''/health'', ''health_check'')]"

text \<open>The routes of a resource are those whose path starts with the resource's path.\<close>

definition routes_under :: "string \<Rightarrow> (http_method \<times> string \<times> string) list" where
  "routes_under pre = filter (\<lambda>(m, path, h). take (length pre) path = pre) routes"

definition methods_under :: "string \<Rightarrow> http_method list" where
  "methods_under pre = map fst (routes_under pre)"

text \<open>
  \<^verbatim>\<open>Query(default, ge=..., le=...)\<close>: a query parameter left out takes the default; one
  given outside the declared range is refused by the framework before the handler runs
  (a validation error, answered with status 422).
\<close>

definition Query :: "int \<Rightarrow> int option \<Rightarrow> int option \<Rightarrow> int option \<Rightarrow> error + int" where
  "Query dflt ge le given =
     (case given of
        None \<Rightarrow> Inr dflt
      | Some x \<Rightarrow>
          if (case ge of None \<Rightarrow> False | Some g \<Rightarrow> x < g) \<or>
             (case le of None \<Rightarrow> False | Some l \<Rightarrow> l < x)
          then Inl RequestValidationError
          else Inr x)"

text \<open>The value a query parameter has in the handler: the one given, or the default.\<close>

definition param_value :: "int \<Rightarrow> int option \<Rightarrow> int" where
  "param_value dflt given = (case given of None \<Rightarrow> dflt | Some x \<Rightarrow> x)"

text \<open>
  A request names its route and carries the route's parameters, already of their declared
  types, and the fields of its body, each given or left out; a response carries the status
  code of a normal return (201 where the decorator says \<^verbatim>\<open>status_code=201\<close>, 200
  otherwise) and the value the handler returns.
\<close>

datatype request =
    ReqRoot
  | ReqListProducts "int option" "int option" "bool option"
  | ReqGetProduct int
  | ReqCreateProduct string "string option field" pyfloat "bool field"
  | ReqUpdateProduct int string "string option field" pyfloat "bool field"
  | ReqDeleteProduct int
  | ReqListUsers "int option" "int option"
  | ReqGetUser int
  | ReqCreateUser string string "string option field"
  | ReqSlowQuery
  | ReqError
  | ReqHealth

datatype body =
    Message "(string \<times> string) list"
  | Report "(string \<times> json) list"
  | OneProduct Product
  | ManyProducts "Product list"
  | OneUser User
  | ManyUsers "User list"

definition respond ::
  "int \<Rightarrow> ('a \<Rightarrow> body) \<Rightarrow> (error + 'a) \<times> database \<Rightarrow> (error + int \<times> body) \<times> database" where
  "respond status wrap r =
     (case fst r of Inl e \<Rightarrow> (Inl e, snd r) | Inr v \<Rightarrow> (Inr (status, wrap v), snd r))"

fun handle :: "environment \<Rightarrow> request \<Rightarrow> database \<Rightarrow> (error + int \<times> body) \<times> database" where
  "handle env ReqRoot db = (Inr (200, Message root), db)"
| "handle env (ReqListProducts skip limit in_stock_only) db =
     (case Query 0 (Some 0) None skip of
        Inl e \<Rightarrow> (Inl e, db)
      | Inr skip' \<Rightarrow>
          (case Query 10 (Some 1) (Some 100) limit of
             Inl e \<Rightarrow> (Inl e, db)
           | Inr limit' \<Rightarrow>
               respond 200 ManyProducts
                 (list_products skip' limit'
                    (case in_stock_only of None \<Rightarrow> False | Some b \<Rightarrow> b) db)))"
| "handle env (ReqGetProduct product_id) db = respond 200 OneProduct (get_product product_id db)"
| "handle env (ReqCreateProduct name description price in_stock) db =
     respond 201 OneProduct
       (create_product (ProductCreate_init name description price in_stock) env db)"
| "handle env (ReqUpdateProduct product_id name description price in_stock) db =
     respond 200 OneProduct
       (update_product product_id (ProductCreate_init name description price in_stock) db)"
| "handle env (ReqDeleteProduct product_id) db =
     respond 200 Message (delete_product product_id db)"
| "handle env (ReqListUsers skip limit) db =
     (case Query 0 (Some 0) None skip of
        Inl e \<Rightarrow> (Inl e, db)
      | Inr skip' \<Rightarrow>
          (case Query 10 (Some 1) (Some 100) limit of
             Inl e \<Rightarrow> (Inl e, db)
           | Inr limit' \<Rightarrow> respond 200 ManyUsers (list_users skip' limit' db)))"
| "handle env (ReqGetUser user_id) db = respond 200 OneUser (get_user user_id db)"
| "handle env (ReqCreateUser username email full_name) db =
     respond 201 OneUser (create_user (UserCreate_init username email full_name) env db)"
| "handle env ReqSlowQuery db = respond 200 Report (slow_query_example db)"
| "handle env ReqError db = respond 200 (\<lambda>u. Message []) (trigger_error, db)"
| "handle env ReqHealth db = (Inr (200, Message health_check), db)"

fun route_of :: "request \<Rightarrow> http_method \<times> string \<times> string" where
  "route_of ReqRoot = (GET, ''/'', ''root'')"
| "route_of (ReqListProducts skip limit in_stock_only) = (GET, ''/products'', ''list_products'')"
| "route_of (ReqGetProduct product_id) = (GET, ''/products/{product_id}'', ''get_product'')"
| "route_of (ReqCreateProduct name description price in_stock) =
     (POST, ''/products'', ''create_product'')"
| "route_of (ReqUpdateProduct product_id name description price in_stock) =
     (PUT, ''/products/{product_id}'', ''update_product'')"
| "route_of (ReqDeleteProduct product_id) =
     (DELETE, ''/products/{product_id}'', ''delete_product'')"
| "route_of (ReqListUsers skip limit) = (GET, ''/users'', ''list_users'')"
| "route_of (ReqGetUser user_id) = (GET, ''/users/{user_id}'', ''get_user'')"
| "route_of (ReqCreateUser username email full_name) = (POST, ''/users'', ''create_user'')"
| "route_of ReqSlowQuery = (GET, ''/slow-query'', ''slow_query_example'')"
| "route_of ReqError = (GET, ''/error'', ''trigger_error'')"
| "route_of ReqHealth = (GET, ''/health'', ''health_check'')"

section \<open>Constraints of the schema as predicates on a state\<close>

text \<open>
  The primary keys: no two rows of a table share an \<^verbatim>\<open>id\<close>, and every \<^verbatim>\<open>id\<close> is an
  integer that SQLite stores.
\<close>

definition primary_keys :: "database \<Rightarrow> bool" where
  "primary_keys db \<longleftrightarrow>
     distinct (map p_id (products db)) \<and> list_all int64 (map p_id (products db)) \<and>
     distinct (map u_id (users db)) \<and> list_all int64 (map u_id (users db))"

text \<open>The two \<^verbatim>\<open>unique=True\<close> columns of \<^verbatim>\<open>users\<close>.\<close>

definition users_unique :: "database \<Rightarrow> bool" where
  "users_unique db \<longleftrightarrow>
     distinct (map u_username (users db)) \<and> distinct (map u_email (users db))"

text \<open>
  The sample data that the file's main block loads into an empty database (the clock read
  there is taken to be 0), and an environment for the examples.
\<close>

definition sample_products :: "Product list" where
  "sample_products =
     [\<lparr>p_id = 1, p_name = ''Laptop'', p_description = Some ''High-performance laptop'',
       p_price = Finite 999.99, p_in_stock = Some True, p_created_at = Some 0\<rparr>,
      \<lparr>p_id = 2, p_name = ''Mouse'', p_description = Some ''Wireless mouse'',
       p_price = Finite 29.99, p_in_stock = Some True, p_created_at = Some 0\<rparr>,
      \<lparr>p_id = 3, p_name = ''Keyboard'', p_description = Some ''Mechanical keyboard'',
       p_price = Finite 149.99, p_in_stock = Some False, p_created_at = Some 0\<rparr>,
      \<lparr>p_id = 4, p_name = ''Monitor'', p_description = Some ''4K display'',
       p_price = Finite 499.99, p_in_stock = Some True, p_created_at = Some 0\<rparr>,
      \<lparr>p_id = 5, p_name = ''Headphones'', p_description = Some ''Noise-cancelling'',
       p_price = Finite 199.99, p_in_stock = Some True, p_created_at = Some 0\<rparr>]"

definition sample_users :: "User list" where
  "sample_users =
     [\<lparr>u_id = 1, u_username = ''johndoe'', u_email = ''john@example.com'',
       u_full_name = Some ''John Doe'', u_created_at = Some 0\<rparr>,
      \<lparr>u_id = 2, u_username = ''janedoe'', u_email = ''jane@example.com'',
       u_full_name = Some ''Jane Doe'', u_created_at = Some 0\<rparr>,
      \<lparr>u_id = 3, u_username = ''admin'', u_email = ''admin@example.com'',
       u_full_name = Some ''Admin User'', u_created_at = Some 0\<rparr>]"

definition sample_db :: database where
  "sample_db = \<lparr>products = sample_products, users = sample_users\<rparr>"

definition sample_env :: environment where
  "sample_env = \<lparr>utcnow = 7, randomness = (\<lambda>i. int i)\<rparr>"

section \<open>Facts about the database layer\<close>

lemma find_Some_member: "find P xs = Some x \<Longrightarrow> P x \<and> x \<in> set xs"
  by (induction xs) (auto split: if_splits)

lemma find_absent: "k \<notin> set (map f xs) \<Longrightarrow> find (\<lambda>y. f y = k) xs = None"
  by (induction xs) auto

lemma find_id_member:
  "distinct (map f xs) \<Longrightarrow> x \<in> set xs \<Longrightarrow> find (\<lambda>y. f y = f x) xs = Some x"
proof (induction xs)
  case Nil
  then show ?case by simp
next
  case (Cons a xs)
  show ?case
  proof (cases "a = x")
    case True
    then show ?thesis by simp
  next
    case False
    with Cons.prems have mem: "x \<in> set xs" by simp
    then have "f x \<in> f ` set xs" by (rule imageI)
    with Cons.prems have "f a \<noteq> f x" by auto
    with Cons.IH Cons.prems mem show ?thesis by simp
  qed
qed

lemma filter_id_remove1:
  "distinct (map f xs) \<Longrightarrow> x \<in> set xs \<Longrightarrow> filter (\<lambda>y. f y \<noteq> f x) xs = remove1 x xs"
proof (induction xs)
  case Nil
  then show ?case by simp
next
  case (Cons a xs)
  show ?case
  proof (cases "a = x")
    case True
    from Cons.prems have "f a \<notin> f ` set xs" by simp
    with True have "\<forall>y\<in>set xs. f y \<noteq> f x" by (metis imageI)
    then have "filter (\<lambda>y. f y \<noteq> f x) xs = xs" by (simp add: filter_id_conv)
    with True show ?thesis by simp
  next
    case False
    with Cons.prems have mem: "x \<in> set xs" by simp
    then have "f x \<in> f ` set xs" by (rule imageI)
    with Cons.prems have "f a \<noteq> f x" by auto
    with Cons.IH Cons.prems mem False show ?thesis by simp
  qed
qed

text \<open>A new rowid is not in use, and is an integer that SQLite stores.\<close>

lemma new_rowid_fresh:
  assumes "new_rowid rnd ids = Inr rid"
  shows "rid \<notin> set ids"
proof (cases "ids = []")
  case True
  then show ?thesis by simp
next
  case ne: False
  show ?thesis
  proof (cases "Max (set ids) < 9223372036854775807")
    case True
    with ne assms have rid: "rid = Max (set ids) + 1" by (simp add: new_rowid_def)
    show ?thesis
    proof
      assume "rid \<in> set ids"
      then have "rid \<le> Max (set ids)" by (intro Max_ge) auto
      with rid show False by simp
    qed
  next
    case False
    with ne assms
    have "find (\<lambda>v. v \<notin> set ids)
            (map (\<lambda>i. rnd i mod 4611686018427387904 + 1) [0..<100]) = Some rid"
      by (simp add: new_rowid_def split: option.splits)
    then show ?thesis by (auto dest: find_Some_member)
  qed
qed

lemma new_rowid_int64:
  assumes "new_rowid rnd ids = Inr rid" and "list_all int64 ids"
  shows "int64 rid"
proof (cases "ids = []")
  case True
  with assms show ?thesis by (simp add: new_rowid_def int64_def)
next
  case ne: False
  then have "Max (set ids) \<in> set ids" by (intro Max_in) auto
  with assms(2) have lo: "- 9223372036854775808 \<le> Max (set ids)"
    by (auto simp: list_all_iff int64_def)
  show ?thesis
  proof (cases "Max (set ids) < 9223372036854775807")
    case True
    with ne assms have "rid = Max (set ids) + 1" by (simp add: new_rowid_def)
    with lo True show ?thesis by (simp add: int64_def)
  next
    case False
    with ne assms
    have "find (\<lambda>v. v \<notin> set ids)
            (map (\<lambda>i. rnd i mod 4611686018427387904 + 1) [0..<100]) = Some rid"
      by (simp add: new_rowid_def split: option.splits)
    then have "rid \<in> set (map (\<lambda>i. rnd i mod 4611686018427387904 + 1) [0..<100])"
      by (auto dest: find_Some_member)
    then obtain i where rid: "rid = rnd i mod 4611686018427387904 + 1" by auto
    have "0 \<le> rnd i mod 4611686018427387904" "rnd i mod 4611686018427387904 < 4611686018427387904"
      by simp_all
    with rid show ?thesis by (simp add: int64_def)
  qed
qed


lemma new_rowid_above:
  fixes ids :: "int list"
  assumes "ids = [] \<or> Max (set ids) < 9223372036854775807" and "k \<in> set ids"
  shows "k < (if ids = [] then 1 else Max (set ids) + 1)"
proof -
  from assms(2) have "k \<le> Max (set ids)" by (intro Max_ge) auto
  moreover from assms(2) have "ids \<noteq> []" by auto
  ultimately show ?thesis by simp
qed

text \<open>Inserting a row at its place in rowid order.\<close>

lemma insort_key_last: "\<forall>y\<in>set xs. f y < f x \<Longrightarrow> insort_key f x xs = xs @ [x]"
proof (induction xs)
  case Nil
  then show ?case by simp
next
  case (Cons a xs)
  then have "\<not> f x \<le> f a" and "\<forall>y\<in>set xs. f y < f x" by (simp_all add: not_le)
  with Cons.IH show ?case by simp
qed

lemma find_insort_fresh:
  "f x \<notin> set (map f xs) \<Longrightarrow> find (\<lambda>y. f y = f x) (insort_key f x xs) = Some x"
  by (induction xs) auto

lemma distinct_map_insort:
  "distinct (map g (insort_key f x xs)) \<longleftrightarrow> g x \<notin> set (map g xs) \<and> distinct (map g xs)"
  by (induction xs) (auto simp: set_insort_key)

lemma list_all_map_insort:
  "list_all P (map g (insort_key f x xs)) \<longleftrightarrow> P (g x) \<and> list_all P (map g xs)"
  by (auto simp: list_all_iff set_insort_key)

lemma empty_db_constraints:
  "primary_keys \<lparr>products = [], users = []\<rparr> \<and> users_unique \<lparr>products = [], users = []\<rparr>"
  by (simp add: primary_keys_def users_unique_def)

lemma sample_keys: "primary_keys sample_db"
  by (simp add: primary_keys_def sample_db_def sample_products_def sample_users_def int64_def)

lemma sample_unique: "users_unique sample_db"
  by (simp add: users_unique_def sample_db_def sample_products_def sample_users_def)

section \<open>What each handler computes\<close>

lemma respond_snd: "snd (respond st w r) = snd r"
  by (simp add: respond_def split: sum.splits)

text \<open>
  \<^verbatim>\<open>create_user\<close> in closed form. The insert after the handler's own check is never refused
  by a \<^verbatim>\<open>unique\<close> column, and the refresh never fails: no \<^verbatim>\<open>IntegrityError\<close> and no
  \<^verbatim>\<open>InvalidRequestError\<close> appears on the right-hand side.
\<close>

lemma create_user_result:
  "create_user user env db =
     (if uc_username user \<in> set (map u_username (users db)) \<or>
         uc_email user \<in> set (map u_email (users db))
      then (Inl (HTTPException 400 ''User with this username or email already exists''), db)
      else (case new_rowid (randomness env) (map u_id (users db)) of
              Inl e \<Rightarrow> (Inl e, db)
            | Inr rid \<Rightarrow>
                (let new = \<lparr>u_id = rid, u_username = uc_username user,
                            u_email = uc_email user, u_full_name = uc_full_name user,
                            u_created_at = Some (utcnow env)\<rparr>
                 in (Inr new, db\<lparr>users := insort_key u_id new (users db)\<rparr>))))"
proof (cases "find (\<lambda>u. u_username u = uc_username user \<or> u_email u = uc_email user) (users db)")
  case None
  then have free: "uc_username user \<notin> set (map u_username (users db))"
    "uc_email user \<notin> set (map u_email (users db))"
    by (auto simp: find_None_iff)
  show ?thesis
  proof (cases "new_rowid (randomness env) (map u_id (users db))")
    case (Inl e)
    with None free show ?thesis by (simp add: create_user_def add_commit_user_def)
  next
    case (Inr rid)
    let ?new = "\<lparr>u_id = rid, u_username = uc_username user,
                   u_email = uc_email user, u_full_name = uc_full_name user,
                   u_created_at = Some (utcnow env)\<rparr>"
    from new_rowid_fresh [OF Inr] have "u_id ?new \<notin> set (map u_id (users db))" by simp
    then have "find (\<lambda>y. u_id y = u_id ?new) (insort_key u_id ?new (users db)) = Some ?new"
      by (rule find_insort_fresh)
    then have "find (\<lambda>y. u_id y = rid) (insort_key u_id ?new (users db)) = Some ?new"
      by simp
    with None free Inr show ?thesis
      by (simp add: create_user_def add_commit_user_def refresh_user_def Let_def)
  qed
next
  case (Some e)
  then have "uc_username user \<in> set (map u_username (users db)) \<or>
         uc_email user \<in> set (map u_email (users db))"
    by (auto dest!: find_Some_member simp: rev_image_eqI)
  with Some show ?thesis by (simp add: create_user_def)
qed

text \<open>\<^verbatim>\<open>create_product\<close> and \<^verbatim>\<open>update_product\<close> in closed form.\<close>

lemma create_product_result:
  "create_product product env db =
     (case new_rowid (randomness env) (map p_id (products db)) of
        Inl e \<Rightarrow> (Inl e, db)
      | Inr rid \<Rightarrow>
          if pc_price product = NaN then (Inl IntegrityError, db)
          else (let new = \<lparr>p_id = rid, p_name = pc_name product,
                           p_description = pc_description product, p_price = pc_price product,
                           p_in_stock = Some (pc_in_stock product),
                           p_created_at = Some (utcnow env)\<rparr>
                in (Inr new, db\<lparr>products := insort_key p_id new (products db)\<rparr>)))"
proof (cases "new_rowid (randomness env) (map p_id (products db))")
  case (Inl e)
  then show ?thesis by (simp add: create_product_def add_commit_product_def)
next
  case (Inr rid)
  let ?new = "\<lparr>p_id = rid, p_name = pc_name product,
                 p_description = pc_description product, p_price = pc_price product,
                 p_in_stock = Some (pc_in_stock product),
                 p_created_at = Some (utcnow env)\<rparr>"
  from new_rowid_fresh [OF Inr] have "p_id ?new \<notin> set (map p_id (products db))" by simp
  then have "find (\<lambda>y. p_id y = p_id ?new) (insort_key p_id ?new (products db)) = Some ?new"
    by (rule find_insort_fresh)
  then have "find (\<lambda>y. p_id y = rid) (insort_key p_id ?new (products db)) = Some ?new"
    by simp
  with Inr show ?thesis
    by (simp add: create_product_def add_commit_product_def refresh_product_def Let_def)
qed

lemma find_map_keep:
  "find (\<lambda>y. f y = k) xs = Some x \<Longrightarrow> (\<And>y. f (g y) = f y) \<Longrightarrow>
   find (\<lambda>y. f y = k) (map g xs) = Some (g x)"
  by (induction xs) (auto split: if_splits)

lemma update_product_result:
  assumes "int64 product_id"
    and "find (\<lambda>p. p_id p = product_id) (products db) = Some p"
    and "pc_price product \<noteq> NaN"
  shows "update_product product_id product db =
           (Inr (p\<lparr>p_name := pc_name product, p_description := pc_description product,
                   p_price := pc_price product, p_in_stock := Some (pc_in_stock product)\<rparr>),
            db\<lparr>products :=
                 map (\<lambda>q. if p_id q = product_id
                          then q\<lparr>p_name := pc_name product,
                                 p_description := pc_description product,
                                 p_price := pc_price product,
                                 p_in_stock := Some (pc_in_stock product)\<rparr>
                          else q)
                     (products db)\<rparr>)"
proof -
  from assms(2) have pid: "p_id p = product_id"
    by (auto dest: find_Some_member)
  let ?g = "\<lambda>q. if p_id q = product_id
                   then q\<lparr>p_name := pc_name product, p_description := pc_description product,
                          p_price := pc_price product, p_in_stock := Some (pc_in_stock product)\<rparr>
                   else q"
  have "find (\<lambda>y. p_id y = product_id) (map ?g (products db)) = Some (?g p)"
    using assms(2) by (rule find_map_keep) simp
  with pid assms show ?thesis
    by (simp add: update_product_def first_by_id_def update_commit_product_def
          refresh_product_def)
qed

lemma update_product_refused:
  "int64 product_id \<Longrightarrow> find (\<lambda>p. p_id p = product_id) (products db) = Some p \<Longrightarrow>
   pc_price product = NaN \<Longrightarrow>
   update_product product_id product db = (Inl IntegrityError, db)"
  by (simp add: update_product_def first_by_id_def update_commit_product_def)

lemma update_product_absent:
  "int64 product_id \<Longrightarrow> find (\<lambda>p. p_id p = product_id) (products db) = None \<Longrightarrow>
   update_product product_id product db = (Inl (HTTPException 404 ''Product not found''), db)"
  by (simp add: update_product_def first_by_id_def)

lemma update_product_overflow:
  "\<not> int64 product_id \<Longrightarrow> update_product product_id product db = (Inl OverflowError, db)"
  by (simp add: update_product_def first_by_id_def)

text \<open>What each handler leaves as it is.\<close>

lemma snd_list_products: "snd (list_products skip limit in_stock_only db) = db"
  by (simp add: list_products_def Let_def)

lemma snd_get_product: "snd (get_product product_id db) = db"
  by (simp add: get_product_def split: option.splits sum.splits)

lemma users_create_product: "users (snd (create_product product env db)) = users db"
  by (simp add: create_product_result Let_def split: sum.splits)

lemma users_update_product: "users (snd (update_product product_id product db)) = users db"
proof (cases "int64 product_id")
  case False
  then show ?thesis by (simp add: update_product_overflow)
next
  case True
  show ?thesis
  proof (cases "find (\<lambda>p. p_id p = product_id) (products db)")
    case None
    with True show ?thesis by (simp add: update_product_absent)
  next
    case (Some p)
    with True show ?thesis
      by (cases "pc_price product = NaN")
         (simp_all add: update_product_result update_product_refused)
  qed
qed

lemma users_delete_product: "users (snd (delete_product product_id db)) = users db"
  by (simp add: delete_product_def delete_commit_product_def split: option.splits sum.splits)

lemma snd_list_users: "snd (list_users skip limit db) = db"
  by (simp add: list_users_def)

lemma snd_get_user: "snd (get_user user_id db) = db"
  by (simp add: get_user_def split: option.splits sum.splits)

lemma products_create_user: "products (snd (create_user user env db)) = products db"
  by (simp add: create_user_result Let_def split: sum.splits)

lemma snd_slow_query_example: "snd (slow_query_example db) = db"
  by (simp add: slow_query_example_def Let_def)

text \<open>The requests are those of the routing table.\<close>

lemma route_of_routes: "range route_of = set routes"
proof
  show "range route_of \<subseteq> set routes"
  proof
    fix r assume "r \<in> range route_of"
    then obtain q where "r = route_of q" by auto
    then show "r \<in> set routes" by (cases q) (simp_all add: routes_def)
  qed
next
  have "route_of ReqRoot \<in> range route_of"
    "route_of (ReqListProducts None None None) \<in> range route_of"
    "route_of (ReqGetProduct 0) \<in> range route_of"
    "route_of (ReqCreateProduct [] Omitted NaN Omitted) \<in> range route_of"
    "route_of (ReqUpdateProduct 0 [] Omitted NaN Omitted) \<in> range route_of"
    "route_of (ReqDeleteProduct 0) \<in> range route_of"
    "route_of (ReqListUsers None None) \<in> range route_of"
    "route_of (ReqGetUser 0) \<in> range route_of"
    "route_of (ReqCreateUser [] [] Omitted) \<in> range route_of"
    "route_of ReqSlowQuery \<in> range route_of"
    "route_of ReqError \<in> range route_of"
    "route_of ReqHealth \<in> range route_of"
    by (rule rangeI)+
  then show "set routes \<subseteq> range route_of"
    by (simp add: routes_def)
qed

text \<open>Pagination: the two list routes in closed form.\<close>

lemma page_rows:
  "0 \<le> s \<Longrightarrow> 1 \<le> l \<Longrightarrow> limit_rows l (offset_rows s rows) = take (nat l) (drop (nat s) rows)"
  by (simp add: limit_rows_def offset_rows_def)

lemma offset_limit_all_valid:
  "0 \<le> s \<Longrightarrow> 1 \<le> l \<Longrightarrow> l \<le> 100 \<Longrightarrow>
   offset_limit_all s l rows =
     (if int64 s then Inr (take (nat l) (drop (nat s) rows)) else Inl OverflowError)"
  by (simp add: offset_limit_all_def page_rows int64_def)

lemma Query_skip_eq:
  "Query 0 (Some 0) None skip =
     (if 0 \<le> param_value 0 skip then Inr (param_value 0 skip) else Inl RequestValidationError)"
  by (auto simp: Query_def param_value_def split: option.splits)

lemma Query_limit_eq:
  "Query 10 (Some 1) (Some 100) limit =
     (if 1 \<le> param_value 10 limit \<and> param_value 10 limit \<le> 100
      then Inr (param_value 10 limit) else Inl RequestValidationError)"
  by (auto simp: Query_def param_value_def split: option.splits)

lemma handle_list_products_eq:
  "handle env (ReqListProducts skip limit in_stock_only) db =
     (if 0 \<le> param_value 0 skip \<and> 1 \<le> param_value 10 limit \<and> param_value 10 limit \<le> 100
      then if int64 (param_value 0 skip)
           then (Inr (200, ManyProducts
                   (take (nat (param_value 10 limit)) (drop (nat (param_value 0 skip))
                      (if in_stock_only = Some True then [] else products db)))), db)
           else (Inl OverflowError, db)
      else (Inl RequestValidationError, db))"
  by (cases in_stock_only)
     (simp_all add: Query_skip_eq Query_limit_eq respond_def list_products_def Let_def
        offset_limit_all_valid)

lemma handle_list_users_eq:
  "handle env (ReqListUsers skip limit) db =
     (if 0 \<le> param_value 0 skip \<and> 1 \<le> param_value 10 limit \<and> param_value 10 limit \<le> 100
      then if int64 (param_value 0 skip)
           then (Inr (200, ManyUsers
                   (take (nat (param_value 10 limit)) (drop (nat (param_value 0 skip))
                      (users db)))), db)
           else (Inl OverflowError, db)
      else (Inl RequestValidationError, db))"
  by (simp add: Query_skip_eq Query_limit_eq respond_def list_users_def offset_limit_all_valid)

text \<open>Lookup and deletion by identifier.\<close>

lemma get_product_overflow:
  "\<not> int64 product_id \<Longrightarrow> get_product product_id db = (Inl OverflowError, db)"
  by (simp add: get_product_def first_by_id_def)

lemma get_product_absent:
  "int64 product_id \<Longrightarrow> product_id \<notin> set (map p_id (products db)) \<Longrightarrow>
   get_product product_id db = (Inl (HTTPException 404 ''Product not found''), db)"
  by (simp add: get_product_def first_by_id_def find_absent)

lemma get_product_present:
  assumes "int64 product_id" and "product_id \<in> set (map p_id (products db))"
  shows "\<exists>p. get_product product_id db = (Inr p, db) \<and> p \<in> set (products db) \<and>
           p_id p = product_id"
proof -
  from assms(2) have "find (\<lambda>p. p_id p = product_id) (products db) \<noteq> None"
    by (auto simp: find_None_iff)
  then obtain p where p: "find (\<lambda>p. p_id p = product_id) (products db) = Some p" by auto
  from find_Some_member [OF p] p assms(1) show ?thesis
    by (simp add: get_product_def first_by_id_def)
qed

lemma get_product_row:
  "distinct (map p_id (products db)) \<Longrightarrow> p \<in> set (products db) \<Longrightarrow> int64 (p_id p) \<Longrightarrow>
   get_product (p_id p) db = (Inr p, db)"
  by (simp add: get_product_def first_by_id_def find_id_member)

lemma get_user_overflow:
  "\<not> int64 user_id \<Longrightarrow> get_user user_id db = (Inl OverflowError, db)"
  by (simp add: get_user_def first_by_id_def)

lemma get_user_absent:
  "int64 user_id \<Longrightarrow> user_id \<notin> set (map u_id (users db)) \<Longrightarrow>
   get_user user_id db = (Inl (HTTPException 404 ''User not found''), db)"
  by (simp add: get_user_def first_by_id_def find_absent)

lemma get_user_present:
  assumes "int64 user_id" and "user_id \<in> set (map u_id (users db))"
  shows "\<exists>u. get_user user_id db = (Inr u, db) \<and> u \<in> set (users db) \<and> u_id u = user_id"
proof -
  from assms(2) have "find (\<lambda>u. u_id u = user_id) (users db) \<noteq> None"
    by (auto simp: find_None_iff)
  then obtain u where u: "find (\<lambda>u. u_id u = user_id) (users db) = Some u" by auto
  from find_Some_member [OF u] u assms(1) show ?thesis
    by (simp add: get_user_def first_by_id_def)
qed

lemma get_user_row:
  "distinct (map u_id (users db)) \<Longrightarrow> u \<in> set (users db) \<Longrightarrow> int64 (u_id u) \<Longrightarrow>
   get_user (u_id u) db = (Inr u, db)"
  by (simp add: get_user_def first_by_id_def find_id_member)

lemma get_product_404_iff:
  "fst (get_product product_id db) = Inl (HTTPException 404 ''Product not found'')
     \<longleftrightarrow> int64 product_id \<and> product_id \<notin> set (map p_id (products db))"
proof (cases "int64 product_id")
  case False
  then show ?thesis by (simp add: get_product_overflow)
next
  case True
  then show ?thesis
    using get_product_absent [of product_id db] get_product_present [of product_id db]
    by (cases "product_id \<in> set (map p_id (products db))") auto
qed

lemma get_user_404_iff:
  "fst (get_user user_id db) = Inl (HTTPException 404 ''User not found'')
     \<longleftrightarrow> int64 user_id \<and> user_id \<notin> set (map u_id (users db))"
proof (cases "int64 user_id")
  case False
  then show ?thesis by (simp add: get_user_overflow)
next
  case True
  then show ?thesis
    using get_user_absent [of user_id db] get_user_present [of user_id db]
    by (cases "user_id \<in> set (map u_id (users db))") auto
qed

lemma primary_keys_product:
  "primary_keys db \<Longrightarrow> p \<in> set (products db) \<Longrightarrow>
   distinct (map p_id (products db)) \<and> int64 (p_id p)"
  by (auto simp: primary_keys_def list_all_iff)

lemma primary_keys_user:
  "primary_keys db \<Longrightarrow> u \<in> set (users db) \<Longrightarrow>
   distinct (map u_id (users db)) \<and> int64 (u_id u)"
  by (auto simp: primary_keys_def list_all_iff)

lemma delete_product_overflow:
  "\<not> int64 product_id \<Longrightarrow> delete_product product_id db = (Inl OverflowError, db)"
  by (simp add: delete_product_def first_by_id_def)

lemma delete_product_absent:
  "int64 product_id \<Longrightarrow> product_id \<notin> set (map p_id (products db)) \<Longrightarrow>
   delete_product product_id db = (Inl (HTTPException 404 ''Product not found''), db)"
  by (simp add: delete_product_def first_by_id_def find_absent)

lemma delete_product_row:
  assumes "distinct (map p_id (products db))" and "p \<in> set (products db)" and "int64 (p_id p)"
  shows "delete_product (p_id p) db =
           (Inr [(''message'', ''Product deleted successfully'')],
            db\<lparr>products := remove1 p (products db)\<rparr>)"
  using assms
  by (simp add: delete_product_def first_by_id_def delete_commit_product_def find_id_member
        filter_id_remove1)

text \<open>The users table under a request, and the constraints of the schema.\<close>

lemma users_handle:
  "users (snd (handle env req db)) = users db \<or>
   (\<exists>user. snd (handle env req db) = snd (create_user user env db))"
  by (cases req)
     (simp_all add: respond_snd users_create_product users_update_product users_delete_product
        snd_list_products snd_get_product snd_list_users snd_get_user snd_slow_query_example
        split: sum.splits, blast)

lemma create_user_unique:
  assumes "users_unique db"
  shows "users_unique (snd (create_user user env db))"
  using assms
  by (simp add: create_user_result users_unique_def distinct_map_insort Let_def
        split: sum.splits)

text \<open>The primary keys stay distinct, and in range, under every request.\<close>

lemma create_product_keys:
  assumes "primary_keys db"
  shows "primary_keys (snd (create_product product env db))"
proof (cases "new_rowid (randomness env) (map p_id (products db))")
  case (Inl e)
  with assms show ?thesis by (simp add: create_product_result)
next
  case (Inr rid)
  from assms have "list_all int64 (map p_id (products db))" by (simp add: primary_keys_def)
  with Inr have "int64 rid" by (rule new_rowid_int64)
  with assms Inr new_rowid_fresh [OF Inr] show ?thesis
    by (simp add: create_product_result primary_keys_def distinct_map_insort
          list_all_map_insort Let_def)
qed

lemma create_user_keys:
  assumes "primary_keys db"
  shows "primary_keys (snd (create_user user env db))"
proof (cases "new_rowid (randomness env) (map u_id (users db))")
  case (Inl e)
  with assms show ?thesis by (simp add: create_user_result)
next
  case (Inr rid)
  from assms have "list_all int64 (map u_id (users db))" by (simp add: primary_keys_def)
  with Inr have "int64 rid" by (rule new_rowid_int64)
  with assms Inr new_rowid_fresh [OF Inr] show ?thesis
    by (simp add: create_user_result primary_keys_def distinct_map_insort
          list_all_map_insort Let_def)
qed

lemma map_key_keep: "(\<And>y. f (g y) = f y) \<Longrightarrow> map f (map g xs) = map f xs"
  by simp

lemma update_product_keys:
  assumes "primary_keys db"
  shows "primary_keys (snd (update_product product_id product db))"
proof (cases "int64 product_id")
  case False
  with assms show ?thesis by (simp add: update_product_overflow)
next
  case True
  show ?thesis
  proof (cases "find (\<lambda>p. p_id p = product_id) (products db)")
    case None
    with True assms show ?thesis by (simp add: update_product_absent)
  next
    case (Some p)
    show ?thesis
    proof (cases "pc_price product = NaN")
      case True
      with \<open>int64 product_id\<close> Some assms show ?thesis by (simp add: update_product_refused)
    next
      case False
      let ?g = "\<lambda>q. if p_id q = product_id
                   then q\<lparr>p_name := pc_name product, p_description := pc_description product,
                          p_price := pc_price product, p_in_stock := Some (pc_in_stock product)\<rparr>
                   else q"
      have "map p_id (map ?g (products db)) = map p_id (products db)"
        by (rule map_key_keep) simp
      with assms have "primary_keys (db\<lparr>products := map ?g (products db)\<rparr>)"
        by (simp add: primary_keys_def del: map_map)
      with \<open>int64 product_id\<close> Some False show ?thesis
        by (simp add: update_product_result)
    qed
  qed
qed

lemma delete_product_keys:
  assumes "primary_keys db"
  shows "primary_keys (snd (delete_product product_id db))"
  using assms
  by (auto simp: delete_product_def delete_commit_product_def primary_keys_def
        distinct_map_filter list_all_iff split: option.splits sum.splits)

lemma primary_keys_preserved:
  assumes "primary_keys db"
  shows "primary_keys (snd (handle env req db))"
  using assms
  by (cases req)
     (simp_all add: respond_snd create_product_keys update_product_keys delete_product_keys
        create_user_keys snd_list_products snd_get_product snd_list_users snd_get_user
        snd_slow_query_example split: sum.splits)

section \<open>The properties of the specification\<close>



text \<open>
  C2, as the specification states it, has the empty list returned for every list-products
  request with \<^verbatim>\<open>in_stock_only\<close> true. A \<^verbatim>\<open>skip\<close> of \<open>2\<^sup>6\<^sup>3\<close> passes the validation
  (\<^verbatim>\<open>ge=0\<close>, no upper bound) and is bound to the statement as its offset: the driver raises
  \<^verbatim>\<open>OverflowError\<close>, and nothing is returned.
\<close>

theorem list_products_in_stock_only_counterexample:
  "handle sample_env (ReqListProducts (Some 9223372036854775808) None (Some True)) sample_db =
     (Inl OverflowError, sample_db) \<and>
   list_products 9223372036854775808 10 True sample_db = (Inl OverflowError, sample_db)"
  by (simp add: Query_def respond_def list_products_def offset_limit_all_def int64_def)

text \<open>
  C2, amended. With \<^verbatim>\<open>in_stock_only\<close> true, \<^verbatim>\<open>list_products\<close> returns the empty list for
  every state whenever \<^verbatim>\<open>skip\<close> and \<^verbatim>\<open>limit\<close> are signed 64-bit integers, the filter
  condition being the constant false; otherwise it raises \<^verbatim>\<open>OverflowError\<close>. Through the
  route: a request whose pagination parameters pass the validation is answered with the
  empty list when its \<^verbatim>\<open>skip\<close> is below \<open>2\<^sup>6\<^sup>3\<close>, and with that error when it is not.
\<close>

theorem list_products_in_stock_only_empty:
  "list_products skip limit True db =
     (if int64 skip \<and> int64 limit then (Inr [], db) else (Inl OverflowError, db)) \<and>
   handle env (ReqListProducts skip' limit' (Some True)) db =
     (if 0 \<le> param_value 0 skip' \<and> 1 \<le> param_value 10 limit' \<and> param_value 10 limit' \<le> 100
      then if param_value 0 skip' < 9223372036854775808
           then (Inr (200, ManyProducts []), db)
           else (Inl OverflowError, db)
      else (Inl RequestValidationError, db))"
proof
  show "list_products skip limit True db =
     (if int64 skip \<and> int64 limit then (Inr [], db) else (Inl OverflowError, db))"
    by (simp add: list_products_def offset_limit_all_def limit_rows_def offset_rows_def)
  have "0 \<le> param_value 0 skip' \<Longrightarrow>
    int64 (param_value 0 skip') \<longleftrightarrow> param_value 0 skip' < 9223372036854775808"
    unfolding int64_def by linarith
  then show "handle env (ReqListProducts skip' limit' (Some True)) db =
     (if 0 \<le> param_value 0 skip' \<and> 1 \<le> param_value 10 limit' \<and> param_value 10 limit' \<le> 100
      then if param_value 0 skip' < 9223372036854775808
           then (Inr (200, ManyProducts []), db)
           else (Inl OverflowError, db)
      else (Inl RequestValidationError, db))"
    unfolding handle_list_products_eq by simp
qed

text \<open>
  C3, as the specification states it, asks for an update and a delete endpoint under
  \<^verbatim>\<open>/users\<close>. No route under \<^verbatim>\<open>/users\<close> has the method PUT, PATCH or DELETE.
\<close>

theorem users_endpoints_counterexample:
  "set (methods_under ''/users'') \<inter> {PUT, PATCH, DELETE} = {}"
  by (simp add: methods_under_def routes_under_def routes_def)

text \<open>
  C3, amended. The routes under \<^verbatim>\<open>/products\<close> are list, get, create, update and delete;
  the routes under \<^verbatim>\<open>/users\<close> are list, get and create, and no others.
\<close>

theorem rest_surface:
  "routes_under ''/products'' =
     [(GET, ''/products'', ''list_products''),
      (GET, ''/products/{product_id}'', ''get_product''),
      (POST, ''/products'', ''create_product''),
      (PUT, ''/products/{product_id}'', ''update_product''),
      (DELETE, ''/products/{product_id}'', ''delete_product'')] \<and>
   routes_under ''/users'' =
     [(GET, ''/users'', ''list_users''),
      (GET, ''/users/{user_id}'', ''get_user''),
      (POST, ''/users'', ''create_user'')]"
  by (simp add: routes_under_def routes_def)

text \<open>
  C4. The pagination parameters are held in range by validation: a list request is refused
  with a validation error unless \<^verbatim>\<open>skip\<close> is at least 0 and \<^verbatim>\<open>limit\<close> is between 1 and
  100 (a parameter left out has its default, 0 and 10). Every list request that is answered
  with rows has such parameters, and its rows are those of the query after the first
  \<^verbatim>\<open>skip\<close>, at most \<^verbatim>\<open>limit\<close> of them; so never more than 100. A request in range is
  answered with rows when its \<^verbatim>\<open>skip\<close> is a signed 64-bit integer, and raises
  \<^verbatim>\<open>OverflowError\<close> when it is not.
\<close>

theorem list_pagination:
  "(fst (handle env (ReqListProducts skip limit in_stock_only) db) = Inr (status, ManyProducts ps)
      \<longrightarrow> 0 \<le> param_value 0 skip \<and> 1 \<le> param_value 10 limit \<and> param_value 10 limit \<le> 100 \<and>
          ps = take (nat (param_value 10 limit)) (drop (nat (param_value 0 skip))
                 (if in_stock_only = Some True then [] else products db)) \<and>
          length ps \<le> nat (param_value 10 limit) \<and> length ps \<le> 100) \<and>
   (fst (handle env (ReqListUsers skip limit) db) = Inr (status, ManyUsers us)
      \<longrightarrow> 0 \<le> param_value 0 skip \<and> 1 \<le> param_value 10 limit \<and> param_value 10 limit \<le> 100 \<and>
          us = take (nat (param_value 10 limit)) (drop (nat (param_value 0 skip)) (users db)) \<and>
          length us \<le> nat (param_value 10 limit) \<and> length us \<le> 100) \<and>
   handle env (ReqListProducts skip limit in_stock_only) db =
     (if 0 \<le> param_value 0 skip \<and> 1 \<le> param_value 10 limit \<and> param_value 10 limit \<le> 100
      then if int64 (param_value 0 skip)
           then (Inr (200, ManyProducts
                   (take (nat (param_value 10 limit)) (drop (nat (param_value 0 skip))
                      (if in_stock_only = Some True then [] else products db)))), db)
           else (Inl OverflowError, db)
      else (Inl RequestValidationError, db)) \<and>
   handle env (ReqListUsers skip limit) db =
     (if 0 \<le> param_value 0 skip \<and> 1 \<le> param_value 10 limit \<and> param_value 10 limit \<le> 100
      then if int64 (param_value 0 skip)
           then (Inr (200, ManyUsers
                   (take (nat (param_value 10 limit)) (drop (nat (param_value 0 skip))
                      (users db)))), db)
           else (Inl OverflowError, db)
      else (Inl RequestValidationError, db))"
proof (intro conjI impI)
  assume a: "fst (handle env (ReqListProducts skip limit in_stock_only) db) =
    Inr (status, ManyProducts ps)"
  then have ok: "0 \<le> param_value 0 skip" "1 \<le> param_value 10 limit"
      "param_value 10 limit \<le> 100"
    and ps: "ps = take (nat (param_value 10 limit)) (drop (nat (param_value 0 skip))
                      (if in_stock_only = Some True then [] else products db))"
    unfolding handle_list_products_eq by (auto split: if_splits)
  from ok show "0 \<le> param_value 0 skip" "1 \<le> param_value 10 limit"
    "param_value 10 limit \<le> 100" .
  from ps show "ps = take (nat (param_value 10 limit)) (drop (nat (param_value 0 skip))
                      (if in_stock_only = Some True then [] else products db))" .
  from ps have "length ps \<le> nat (param_value 10 limit)" by simp
  with ok show "length ps \<le> nat (param_value 10 limit)" "length ps \<le> 100" by linarith+
next
  assume a: "fst (handle env (ReqListUsers skip limit) db) = Inr (status, ManyUsers us)"
  then have ok: "0 \<le> param_value 0 skip" "1 \<le> param_value 10 limit"
      "param_value 10 limit \<le> 100"
    and us: "us = take (nat (param_value 10 limit)) (drop (nat (param_value 0 skip)) (users db))"
    unfolding handle_list_users_eq by (auto split: if_splits)
  from ok show "0 \<le> param_value 0 skip" "1 \<le> param_value 10 limit"
    "param_value 10 limit \<le> 100" .
  from us show "us = take (nat (param_value 10 limit)) (drop (nat (param_value 0 skip))
    (users db))" .
  from us have "length us \<le> nat (param_value 10 limit)" by simp
  with ok show "length us \<le> nat (param_value 10 limit)" "length us \<le> 100" by linarith+
next
  show "handle env (ReqListProducts skip limit in_stock_only) db =
     (if 0 \<le> param_value 0 skip \<and> 1 \<le> param_value 10 limit \<and> param_value 10 limit \<le> 100
      then if int64 (param_value 0 skip)
           then (Inr (200, ManyProducts
                   (take (nat (param_value 10 limit)) (drop (nat (param_value 0 skip))
                      (if in_stock_only = Some True then [] else products db)))), db)
           else (Inl OverflowError, db)
      else (Inl RequestValidationError, db))"
    by (rule handle_list_products_eq)
  show "handle env (ReqListUsers skip limit) db =
     (if 0 \<le> param_value 0 skip \<and> 1 \<le> param_value 10 limit \<and> param_value 10 limit \<le> 100
      then if int64 (param_value 0 skip)
           then (Inr (200, ManyUsers
                   (take (nat (param_value 10 limit)) (drop (nat (param_value 0 skip))
                      (users db)))), db)
           else (Inl OverflowError, db)
      else (Inl RequestValidationError, db))"
    by (rule handle_list_users_eq)
qed

theorem list_pagination_witness:
  "fst (handle sample_env (ReqListProducts (Some 1) (Some 2) None) sample_db) =
     Inr (200, ManyProducts (take 2 (drop 1 sample_products))) \<and>
   length (take 2 (drop 1 sample_products)) \<le> 100 \<and>
   fst (handle sample_env (ReqListUsers None (Some 100)) sample_db) =
     Inr (200, ManyUsers sample_users) \<and>
   length sample_users \<le> 100 \<and>
   handle sample_env (ReqListUsers None (Some 101)) sample_db =
     (Inl RequestValidationError, sample_db) \<and>
   handle sample_env (ReqListUsers (Some 9223372036854775808) None) sample_db =
     (Inl OverflowError, sample_db)"
  using list_pagination [of sample_env "Some 1" "Some 2" None sample_db 200
      "take 2 (drop 1 sample_products)" "take 2 (drop 1 sample_users)"]
    list_pagination [of sample_env None "Some 100" None sample_db 200
      "take 10 sample_products" sample_users]
    list_pagination [of sample_env None "Some 101" None sample_db 200
      "take 10 sample_products" sample_users]
    list_pagination [of sample_env "Some 9223372036854775808" None None sample_db 200
      "[]" "[]"]
  by (simp add: param_value_def int64_def sample_db_def sample_users_def sample_products_def
        del: handle.simps)

text \<open>
  C5, as the specification states it, has the 404 response for every identifier that no
  row has. The identifier \<open>2\<^sup>6\<^sup>3\<close> is accepted by the route (\<^verbatim>\<open>product_id: int\<close>), no row
  has it, and the lookup raises \<^verbatim>\<open>OverflowError\<close> instead; \<^verbatim>\<open>get_user\<close> does the same.
\<close>

theorem get_not_found_counterexample:
  "9223372036854775808 \<notin> set (map p_id (products sample_db)) \<and>
   get_product 9223372036854775808 sample_db = (Inl OverflowError, sample_db) \<and>
   9223372036854775808 \<notin> set (map u_id (users sample_db)) \<and>
   get_user 9223372036854775808 sample_db = (Inl OverflowError, sample_db)"
  by (simp add: get_product_def get_user_def first_by_id_def int64_def sample_db_def
        sample_products_def sample_users_def)

text \<open>
  C5, amended. For every identifier that is a signed 64-bit integer, \<^verbatim>\<open>get_product\<close>
  raises the 404 \<^verbatim>\<open>HTTPException\<close> if and only if no product has the identifier, and
  \<^verbatim>\<open>get_user\<close> likewise; for an identifier outside that range the handler raises
  \<^verbatim>\<open>OverflowError\<close>. When a row has the identifier, the handler returns a stored row with
  it, which under the primary key is the row itself. The state is unchanged in every case.
\<close>

theorem get_not_found_iff:
  "(fst (get_product product_id db) = Inl (HTTPException 404 ''Product not found'')
      \<longleftrightarrow> int64 product_id \<and> product_id \<notin> set (map p_id (products db))) \<and>
   (fst (get_user user_id db) = Inl (HTTPException 404 ''User not found'')
      \<longleftrightarrow> int64 user_id \<and> user_id \<notin> set (map u_id (users db))) \<and>
   (int64 product_id \<or> get_product product_id db = (Inl OverflowError, db)) \<and>
   (int64 user_id \<or> get_user user_id db = (Inl OverflowError, db)) \<and>
   (int64 product_id \<and> product_id \<in> set (map p_id (products db)) \<longrightarrow>
      (\<exists>p. get_product product_id db = (Inr p, db) \<and> p \<in> set (products db) \<and>
           p_id p = product_id)) \<and>
   (int64 user_id \<and> user_id \<in> set (map u_id (users db)) \<longrightarrow>
      (\<exists>u. get_user user_id db = (Inr u, db) \<and> u \<in> set (users db) \<and> u_id u = user_id)) \<and>
   (primary_keys db \<and> p \<in> set (products db) \<longrightarrow> get_product (p_id p) db = (Inr p, db)) \<and>
   (primary_keys db \<and> u \<in> set (users db) \<longrightarrow> get_user (u_id u) db = (Inr u, db)) \<and>
   snd (get_product product_id db) = db \<and> snd (get_user user_id db) = db"
proof (intro conjI impI)
  show "fst (get_product product_id db) = Inl (HTTPException 404 ''Product not found'')
      \<longleftrightarrow> int64 product_id \<and> product_id \<notin> set (map p_id (products db))"
    by (rule get_product_404_iff)
  show "fst (get_user user_id db) = Inl (HTTPException 404 ''User not found'')
      \<longleftrightarrow> int64 user_id \<and> user_id \<notin> set (map u_id (users db))"
    by (rule get_user_404_iff)
  show "int64 product_id \<or> get_product product_id db = (Inl OverflowError, db)"
    using get_product_overflow [of product_id db] by blast
  show "int64 user_id \<or> get_user user_id db = (Inl OverflowError, db)"
    using get_user_overflow [of user_id db] by blast
  show "snd (get_product product_id db) = db" by (rule snd_get_product)
  show "snd (get_user user_id db) = db" by (rule snd_get_user)
next
  assume "int64 product_id \<and> product_id \<in> set (map p_id (products db))"
  then show "\<exists>p. get_product product_id db = (Inr p, db) \<and> p \<in> set (products db) \<and>
           p_id p = product_id"
    by (simp add: get_product_present)
next
  assume "int64 user_id \<and> user_id \<in> set (map u_id (users db))"
  then show "\<exists>u. get_user user_id db = (Inr u, db) \<and> u \<in> set (users db) \<and> u_id u = user_id"
    by (simp add: get_user_present)
next
  assume a: "primary_keys db \<and> p \<in> set (products db)"
  then have "distinct (map p_id (products db)) \<and> int64 (p_id p)"
    using primary_keys_product [of db p] by blast
  with a have "distinct (map p_id (products db)) \<and> int64 (p_id p)" and "p \<in> set (products db)"
    by simp_all
  then show "get_product (p_id p) db = (Inr p, db)"
    by (simp add: get_product_row)
next
  assume a: "primary_keys db \<and> u \<in> set (users db)"
  then have "distinct (map u_id (users db)) \<and> int64 (u_id u)"
    using primary_keys_user [of db u] by blast
  with a have "distinct (map u_id (users db)) \<and> int64 (u_id u)" and "u \<in> set (users db)"
    by simp_all
  then show "get_user (u_id u) db = (Inr u, db)"
    by (simp add: get_user_row)
qed

theorem get_not_found_iff_witness:
  "primary_keys sample_db \<and>
   \<lparr>p_id = 2, p_name = ''Mouse'', p_description = Some ''Wireless mouse'',
       p_price = Finite 29.99, p_in_stock = Some True, p_created_at = Some 0\<rparr>
     \<in> set (products sample_db) \<and>
   get_product 2 sample_db =
     (Inr \<lparr>p_id = 2, p_name = ''Mouse'', p_description = Some ''Wireless mouse'',
       p_price = Finite 29.99, p_in_stock = Some True, p_created_at = Some 0\<rparr>, sample_db) \<and>
   \<lparr>u_id = 3, u_username = ''admin'', u_email = ''admin@example.com'',
       u_full_name = Some ''Admin User'', u_created_at = Some 0\<rparr> \<in> set (users sample_db) \<and>
   get_user 3 sample_db =
     (Inr \<lparr>u_id = 3, u_username = ''admin'', u_email = ''admin@example.com'',
       u_full_name = Some ''Admin User'', u_created_at = Some 0\<rparr>, sample_db) \<and>
   int64 6 \<and> 6 \<notin> set (map p_id (products sample_db)) \<and>
   fst (get_product 6 sample_db) = Inl (HTTPException 404 ''Product not found'') \<and>
   int64 4 \<and> 4 \<notin> set (map u_id (users sample_db)) \<and>
   fst (get_user 4 sample_db) = Inl (HTTPException 404 ''User not found'')"
  using get_not_found_iff [of 6 sample_db 4
      "\<lparr>p_id = 2, p_name = ''Mouse'', p_description = Some ''Wireless mouse'',
       p_price = Finite 29.99, p_in_stock = Some True, p_created_at = Some 0\<rparr>"
      "\<lparr>u_id = 3, u_username = ''admin'', u_email = ''admin@example.com'',
       u_full_name = Some ''Admin User'', u_created_at = Some 0\<rparr>"]
    sample_keys
  by (simp add: int64_def sample_db_def sample_users_def sample_products_def)

text \<open>
  C6. Every request preserves the uniqueness of usernames and of emails among the stored
  users.
\<close>

theorem users_unique_preserved:
  assumes "users_unique db"
  shows "users_unique (snd (handle env req db))"
proof -
  from users_handle [of env req db] show ?thesis
  proof
    assume "users (snd (handle env req db)) = users db"
    with assms show ?thesis by (simp add: users_unique_def)
  next
    assume "\<exists>user. snd (handle env req db) = snd (create_user user env db)"
    with assms show ?thesis by (auto simp: create_user_unique)
  qed
qed

theorem users_unique_preserved_witness:
  "users_unique sample_db \<and>
   snd (handle sample_env (ReqCreateUser ''bob'' ''bob@example.com'' Omitted) sample_db) =
     sample_db\<lparr>users := sample_users @
        [\<lparr>u_id = 4, u_username = ''bob'', u_email = ''bob@example.com'', u_full_name = None,
          u_created_at = Some 7\<rparr>]\<rparr> \<and>
   users_unique (sample_db\<lparr>users := sample_users @
        [\<lparr>u_id = 4, u_username = ''bob'', u_email = ''bob@example.com'', u_full_name = None,
          u_created_at = Some 7\<rparr>]\<rparr>)"
proof -
  have start: "users_unique sample_db" by (rule sample_unique)
  have step: "snd (handle sample_env (ReqCreateUser ''bob'' ''bob@example.com'' Omitted)
                 sample_db) =
     sample_db\<lparr>users := sample_users @
        [\<lparr>u_id = 4, u_username = ''bob'', u_email = ''bob@example.com'', u_full_name = None,
          u_created_at = Some 7\<rparr>]\<rparr>"
    by (simp add: respond_def create_user_result new_rowid_def Let_def sample_db_def
          sample_users_def sample_env_def UserCreate_init_def field_value_def)
  from users_unique_preserved [OF start, of sample_env
      "ReqCreateUser ''bob'' ''bob@example.com'' Omitted"] start step
  show ?thesis by simp
qed

text \<open>
  C7. \<^verbatim>\<open>trigger_error\<close> raises a \<^verbatim>\<open>ValueError\<close>; a request to \<^verbatim>\<open>/error\<close> is answered
  by that error, never by a normal response, whatever the state.
\<close>

theorem trigger_error_raises:
  "trigger_error = Inl (ValueError ''This is an example error for demonstration purposes'') \<and>
   handle env ReqError db =
     (Inl (ValueError ''This is an example error for demonstration purposes''), db)"
  by (simp add: trigger_error_def respond_def)

text \<open>
  C8. The product handlers leave the table of users as it is, and the user handlers leave
  the table of products as it is.
\<close>

theorem entities_unrelated:
  "users (snd (create_product product env db)) = users db \<and>
   users (snd (update_product product_id product db)) = users db \<and>
   users (snd (delete_product product_id db)) = users db \<and>
   users (snd (list_products skip limit in_stock_only db)) = users db \<and>
   users (snd (get_product product_id db)) = users db \<and>
   products (snd (create_user user env db)) = products db \<and>
   products (snd (list_users skip limit db)) = products db \<and>
   products (snd (get_user user_id db)) = products db"
  by (simp only: users_create_product users_update_product users_delete_product
        snd_list_products snd_get_product products_create_user snd_list_users snd_get_user
        simp_thms)

text \<open>
  C9, as the specification states it, has the 404 response whenever no product has the
  identifier. No product has the identifier \<open>2\<^sup>6\<^sup>3\<close>, which the route accepts, and
  \<^verbatim>\<open>delete_product\<close> raises \<^verbatim>\<open>OverflowError\<close> for it.
\<close>

theorem delete_product_counterexample:
  "9223372036854775808 \<notin> set (map p_id (products sample_db)) \<and>
   delete_product 9223372036854775808 sample_db = (Inl OverflowError, sample_db)"
  by (simp add: delete_product_def first_by_id_def int64_def sample_db_def
        sample_products_def)

text \<open>
  C9, amended. Called with the identifier of a stored product, \<^verbatim>\<open>delete_product\<close> removes
  that row and no other (the rest of the table and the users keep their content and order)
  and returns the message "Product deleted successfully". Called with a signed 64-bit
  identifier that no product has, it raises the 404 \<^verbatim>\<open>HTTPException\<close>; called with an
  identifier outside that range, it raises \<^verbatim>\<open>OverflowError\<close>; in both cases the state is
  left as it is.
\<close>

theorem delete_product_effect:
  "(primary_keys db \<and> p \<in> set (products db) \<longrightarrow>
      delete_product (p_id p) db =
        (Inr [(''message'', ''Product deleted successfully'')],
         db\<lparr>products := remove1 p (products db)\<rparr>) \<and>
      set (remove1 p (products db)) = set (products db) - {p} \<and>
      length (remove1 p (products db)) + 1 = length (products db)) \<and>
   (int64 product_id \<and> product_id \<notin> set (map p_id (products db)) \<longrightarrow>
      delete_product product_id db = (Inl (HTTPException 404 ''Product not found''), db)) \<and>
   (int64 product_id \<or> delete_product product_id db = (Inl OverflowError, db))"
proof (intro conjI impI)
  assume a: "primary_keys db \<and> p \<in> set (products db)"
  then have m: "p \<in> set (products db)" by simp
  from a have "distinct (map p_id (products db)) \<and> int64 (p_id p)"
    using primary_keys_product [of db p] by blast
  then have d: "distinct (map p_id (products db))" and r: "int64 (p_id p)" by simp_all
  from d m r show "delete_product (p_id p) db =
        (Inr [(''message'', ''Product deleted successfully'')],
         db\<lparr>products := remove1 p (products db)\<rparr>)"
    by (rule delete_product_row)
  from d have "distinct (products db)" by (simp add: distinct_map)
  then show "set (remove1 p (products db)) = set (products db) - {p}"
    by (rule set_remove1_eq)
  from m have "0 < length (products db)" by (rule length_pos_if_in_set)
  with m show "length (remove1 p (products db)) + 1 = length (products db)"
    by (simp add: length_remove1)
next
  assume "int64 product_id \<and> product_id \<notin> set (map p_id (products db))"
  then show "delete_product product_id db = (Inl (HTTPException 404 ''Product not found''), db)"
    by (simp add: delete_product_absent)
next
  show "int64 product_id \<or> delete_product product_id db = (Inl OverflowError, db)"
    using delete_product_overflow [of product_id db] by blast
qed

theorem delete_product_effect_witness:
  "primary_keys sample_db \<and>
   delete_product 3 sample_db =
     (Inr [(''message'', ''Product deleted successfully'')],
      sample_db\<lparr>products :=
        [sample_products ! 0, sample_products ! 1, sample_products ! 3, sample_products ! 4]\<rparr>) \<and>
   int64 9 \<and> 9 \<notin> set (map p_id (products sample_db)) \<and>
   delete_product 9 sample_db = (Inl (HTTPException 404 ''Product not found''), sample_db)"
  using delete_product_effect [of sample_db "sample_products ! 2" 9] sample_keys
  by (simp add: int64_def sample_db_def sample_products_def)




end
